theory Spec2Isabelle
  imports
    Complex_Main
    "HOL-Library.Char_ord"
    "HOL-Library.List_Lexorder"
    "HOL-Library.Multiset"
    "HOL-Library.Product_Lexorder"
    "HOL-Library.Sublist"
begin

section \<open>Startup investment dashboard (app.py)\<close>

text \<open>
  A shallow embedding of \<^verbatim>\<open>app.py\<close>. A pandas DataFrame is a list of rows, a Series is a
  list of cells, a text cell is a \<open>string option\<close> with \<open>None\<close> for NaN (a missing value).
  Python strings are compared by code point; the lexicographic order on \<open>char list\<close> is the
  same order on the UTF-8 bytes. Rounding of floating point is not modelled. The loader
  is modelled with infinite values and with the int64 cast of the founded year; from the
  filter on, the Dataset is one whose fundings are finite, and they are \<open>real\<close>.
\<close>

subsection \<open>Data model\<close>

record row =
  name :: "string option"
  market :: "string option"
  country_code :: "string option"
  status :: "string option"
  founded_year :: int
  funding_total_usd :: real
  funding_rounds :: "real option"
  homepage_url :: "string option"

text \<open>
  The values the sidebar widgets return (lines 24 to 28). The options of the three
  multiselects are \<open>sorted(df[col].dropna().unique())\<close>, so a selection is a list of
  strings: it cannot hold NaN.
\<close>

record criteria =
  selected_status :: "string list"
  selected_market :: "string list"
  selected_country :: "string list"
  founded_range :: "int \<times> int"
  min_funding :: int

subsection \<open>Series operations used by the filter\<close>

definition column :: "(row \<Rightarrow> 'a) \<Rightarrow> row list \<Rightarrow> 'a list" where
  "column f df = map f df"

text \<open>\<open>Series.isin(values)\<close>: NaN is a member only of a list that holds NaN.\<close>

definition isin :: "string option list \<Rightarrow> string list \<Rightarrow> bool list" where
  "isin col vals = map (\<lambda>v. case v of None \<Rightarrow> False | Some s \<Rightarrow> s \<in> set vals) col"

text \<open>\<open>Series.between(left, right)\<close>, with the default \<open>inclusive='both'\<close>.\<close>

definition between_series :: "int list \<Rightarrow> int \<Rightarrow> int \<Rightarrow> bool list" where
  "between_series col left right = map (\<lambda>y. left \<le> y \<and> y \<le> right) col"

text \<open>\<open>series >= scalar\<close>.\<close>

definition ge_series :: "real list \<Rightarrow> int \<Rightarrow> bool list" where
  "ge_series col t = map (\<lambda>v. real_of_int t \<le> v) col"

text \<open>\<open>a & b\<close> on two boolean Series of one index.\<close>

definition and_series :: "bool list \<Rightarrow> bool list \<Rightarrow> bool list" where
  "and_series a b = map (\<lambda>(x, y). x \<and> y) (zip a b)"

text \<open>\<open>df[mask]\<close>: the rows whose mask entry is True, in the order of \<open>df\<close>.\<close>

definition boolean_index :: "'a list \<Rightarrow> bool list \<Rightarrow> 'a list" where
  "boolean_index df bmask = map fst (filter snd (zip df bmask))"

subsection \<open>The loader (lines 12 to 17)\<close>
















subsection \<open>The sidebar controls (lines 24 to 28)\<close>

text \<open>\<open>Series.dropna()\<close> and \<open>Series.unique()\<close> (distinct values, in order of first appearance).\<close>

definition dropna :: "'a option list \<Rightarrow> 'a list" where
  "dropna col = List.map_filter (\<lambda>v. v) col"

definition unique :: "'a list \<Rightarrow> 'a list" where
  "unique xs = rev (remdups (rev xs))"

text \<open>The options a multiselect offers: \<open>sorted(df[col].dropna().unique())\<close>.\<close>

definition multiselect_options :: "(row \<Rightarrow> string option) \<Rightarrow> row list \<Rightarrow> string list" where
  "multiselect_options f df = sort (unique (dropna (column f df)))"

text \<open>The selection before the user touches a control (the \<open>default=\<close> arguments).\<close>

definition default_criteria :: "row list \<Rightarrow> criteria" where
  "default_criteria df =
     \<lparr>selected_status = unique (dropna (column status df)),
      selected_market = take 5 (multiselect_options market df),
      selected_country = [''USA'', ''GBR''],
      founded_range = (2005, 2015),
      min_funding = 1000000\<rparr>"

subsection \<open>The filter (lines 31 to 37)\<close>

definition filtered_df :: "row list \<Rightarrow> criteria \<Rightarrow> row list" where
  "filtered_df df c =
     boolean_index df
       (and_series
         (and_series
           (and_series
             (and_series
               (isin (column status df) (selected_status c))
               (isin (column market df) (selected_market c)))
             (isin (column country_code df) (selected_country c)))
           (between_series (column founded_year df)
              (fst (founded_range c)) (snd (founded_range c))))
         (ge_series (column funding_total_usd df) (min_funding c)))"

text \<open>
  The five clauses as the specification words them, for comparison with the mask the
  code builds.
\<close>

definition spec_satisfies :: "criteria \<Rightarrow> row \<Rightarrow> bool" where
  "spec_satisfies c r \<longleftrightarrow>
     status r \<in> Some ` set (selected_status c) \<and>
     market r \<in> Some ` set (selected_market c) \<and>
     country_code r \<in> Some ` set (selected_country c) \<and>
     fst (founded_range c) \<le> founded_year r \<and> founded_year r \<le> snd (founded_range c) \<and>
     real_of_int (min_funding c) \<le> funding_total_usd r"

subsection \<open>Aggregations (lines 69, 82, 96, 137, 151 to 153)\<close>

text \<open>
  \<open>df.groupby(key)\<close>: one group per distinct key, the groups in ascending key order
  (\<open>sort=True\<close>), rows with a missing key left out (\<open>dropna=True\<close>).
\<close>

definition group_keys :: "('r \<Rightarrow> 'k option) \<Rightarrow> 'r list \<Rightarrow> ('k::linorder) list" where
  "group_keys key rows = sort (remdups (dropna (map key rows)))"

definition groupby :: "('r \<Rightarrow> ('k::linorder) option) \<Rightarrow> 'r list \<Rightarrow> ('k \<times> 'r list) list" where
  "groupby key rows = map (\<lambda>k. (k, filter (\<lambda>r. key r = Some k) rows)) (group_keys key rows)"

definition agg_sum :: "('r \<Rightarrow> real) \<Rightarrow> ('k \<times> 'r list) list \<Rightarrow> ('k \<times> real) list" where
  "agg_sum val groups = map (\<lambda>(k, rs). (k, sum_list (map val rs))) groups"

definition agg_mean :: "('r \<Rightarrow> real) \<Rightarrow> ('k \<times> 'r list) list \<Rightarrow> ('k \<times> real) list" where
  "agg_mean val groups = map (\<lambda>(k, rs). (k, sum_list (map val rs) / real (length rs))) groups"

definition agg_size :: "('k \<times> 'r list) list \<Rightarrow> ('k \<times> nat) list" where
  "agg_size groups = map (\<lambda>(k, rs). (k, length rs)) groups"

text \<open>
  \<open>Series.sort_values(ascending=False)\<close>: pandas reverses the values, sorts them
  ascending and reverses the result. The order pandas gives to equal values depends on
  its sorting algorithm; the model keeps them in their original order.
\<close>

definition sort_values_desc :: "('k \<times> ('v::linorder)) list \<Rightarrow> ('k \<times> 'v) list" where
  "sort_values_desc s = rev (sort_key snd (rev s))"

definition head :: "nat \<Rightarrow> 'a list \<Rightarrow> 'a list" where
  "head n s = take n s"

text \<open>
  \<open>Series.value_counts()\<close>: the count of each distinct non-null value, sorted descending
  by count.
\<close>

definition tally :: "'a list \<Rightarrow> ('a \<times> nat) list" where
  "tally xs = map (\<lambda>k. (k, count_list xs k)) (unique xs)"

definition value_counts :: "'a option list \<Rightarrow> ('a \<times> nat) list" where
  "value_counts col = sort_values_desc (tally (dropna col))"

definition market_sums :: "row list \<Rightarrow> (string \<times> real) list" where
  "market_sums fv = agg_sum funding_total_usd (groupby market fv)"

definition top_markets :: "row list \<Rightarrow> (string \<times> real) list" where
  "top_markets fv = head 10 (sort_values_desc (market_sums fv))"

definition yearly_funding :: "row list \<Rightarrow> (int \<times> real) list" where
  "yearly_funding fv = agg_sum funding_total_usd (groupby (\<lambda>r. Some (founded_year r)) fv)"

definition country_counts :: "row list \<Rightarrow> (string \<times> nat) list" where
  "country_counts fv = head 7 (value_counts (column country_code fv))"

definition market_means :: "row list \<Rightarrow> (string \<times> real) list" where
  "market_means fv = agg_mean funding_total_usd (groupby market fv)"

definition avg_funding :: "row list \<Rightarrow> (string \<times> real) list" where
  "avg_funding fv = head 7 (sort_values_desc (market_means fv))"

text \<open>
  \<open>groupby(['market', 'status']).size().unstack(fill_value=0)\<close>: a table with one line
  per market and one column per status, holding the number of rows of that market and
  status, 0 where there is none. Rows with a missing market or status are in no group.
\<close>

definition market_status_key :: "row \<Rightarrow> (string \<times> string) option" where
  "market_status_key r =
     (case market r of None \<Rightarrow> None
      | Some m \<Rightarrow> (case status r of None \<Rightarrow> None | Some s \<Rightarrow> Some (m, s)))"

record status_table =
  table_index :: "string list"
  table_columns :: "string list"
  table_values :: "nat list list"

definition unstack :: "((string \<times> string) \<times> nat) list \<Rightarrow> status_table" where
  "unstack sizes =
     (let idx = sort (remdups (map (\<lambda>((m, s), n). m) sizes));
          cols = sort (remdups (map (\<lambda>((m, s), n). s) sizes))
      in \<lparr>table_index = idx, table_columns = cols,
          table_values =
            map (\<lambda>m. map (\<lambda>s. case map_of sizes (m, s) of None \<Rightarrow> 0 | Some n \<Rightarrow> n) cols) idx\<rparr>)"

definition status_data :: "row list \<Rightarrow> status_table" where
  "status_data fv = unstack (agg_size (groupby market_status_key fv))"

text \<open>\<open>table.get(col, 0)\<close>: the column, or 0 on every line when there is no such column.\<close>

definition get_column :: "status_table \<Rightarrow> string \<Rightarrow> nat list" where
  "get_column t col =
     map (\<lambda>line. case map_of (zip (table_columns t) line) col of None \<Rightarrow> 0 | Some n \<Rightarrow> n)
       (table_values t)"

text \<open>\<open>table.sum(axis=1)\<close>.\<close>

definition sum_axis1 :: "status_table \<Rightarrow> nat list" where
  "sum_axis1 t = map sum_list (table_values t)"

definition acq_rate :: "row list \<Rightarrow> (string \<times> real) list" where
  "acq_rate fv =
     (let t = status_data fv
      in zip (table_index t)
           (map (\<lambda>(a, n). real a / real n) (zip (get_column t ''acquired'') (sum_axis1 t))))"

definition top_acq :: "row list \<Rightarrow> (string \<times> real) list" where
  "top_acq fv = head 7 (sort_values_desc (acq_rate fv))"

subsection \<open>The page (lines 39 to 161)\<close>

text \<open>
  What a run of the script shows after the filter, as the list of Streamlit calls in
  program order, each with the container it is made in. A chart is recorded with the
  data it is given; labels, sizes and colours are left out, and so is the text that
  \<open>to_markdown\<close> produces for the table.
\<close>

record display_row =
  d_name :: "string option"
  d_market :: "string option"
  d_country_code :: "string option"
  d_status :: "string option"
  d_founded_year :: int
  d_funding_total_usd :: real
  d_homepage_url :: string

datatype chart =
    Barplot "(string \<times> real) list"
  | Line "(int \<times> real) list"
  | Pie "(string \<times> nat) list"
  | Boxplot "(string option \<times> real) list"
  | Scatter "row list"

datatype widget =
    St_warning string
  | St_info string
  | St_markdown string
  | St_write string
  | St_table "display_row list"
  | St_dataframe "row list"
  | St_pyplot chart
  | St_plotly_chart chart

datatype place = Page | Col1 | Col2

type_synonym event = "place \<times> widget"

text \<open>\<open>str.startswith\<close>, and Python's \<open>str\<close> of a non-negative integer.\<close>

definition startswith :: "string \<Rightarrow> string \<Rightarrow> bool" where
  "startswith x p = (take (length p) x = p)"

fun str_nat :: "nat \<Rightarrow> string" where
  "str_nat n =
     (if n < 10 then [''0123456789'' ! n]
      else str_nat (n div 10) @ [''0123456789'' ! (n mod 10)])"

declare str_nat.simps [simp del]

text \<open>
  The lambda of line 49. \<open>pd.notna(x)\<close> is the case \<open>Some\<close>; a cell of the column is text
  or missing.
\<close>

definition render_homepage :: "string option \<Rightarrow> string" where
  "render_homepage x =
     (case x of
        None \<Rightarrow> ''''
      | Some u \<Rightarrow> if startswith u ''http'' then ''[Website]('' @ u @ '')'' else '''')"

definition display_df :: "row list \<Rightarrow> display_row list" where
  "display_df fv =
     map (\<lambda>r. \<lparr>d_name = name r, d_market = market r, d_country_code = country_code r,
               d_status = status r, d_founded_year = founded_year r,
               d_funding_total_usd = funding_total_usd r,
               d_homepage_url = render_homepage (homepage_url r)\<rparr>) fv"

definition add_spacing :: "nat \<Rightarrow> event list" where
  "add_spacing lines = replicate lines (Page, St_write '''')"

text \<open>The pictographs of the headings, as their UTF-8 bytes.\<close>

definition bar_chart_sign :: string where
  "bar_chart_sign = [CHR 0xF0, CHR 0x9F, CHR 0x93, CHR 0x8A]"

definition light_bulb_sign :: string where
  "light_bulb_sign = [CHR 0xF0, CHR 0x9F, CHR 0x92, CHR 0xA1]"

definition chart_up_sign :: string where
  "chart_up_sign = [CHR 0xF0, CHR 0x9F, CHR 0x93, CHR 0x88]"

definition globe_sign :: string where
  "globe_sign = [CHR 0xF0, CHR 0x9F, CHR 0x8C, CHR 0x8D]"

definition arrows_sign :: string where
  "arrows_sign = [CHR 0xF0, CHR 0x9F, CHR 0x94, CHR 0x84]"

definition chart_down_sign :: string where
  "chart_down_sign = [CHR 0xF0, CHR 0x9F, CHR 0x93, CHR 0x89]"

definition overview :: "string list \<Rightarrow> row list \<Rightarrow> event list" where
  "overview cols fv =
     [(Page, St_markdown (''## '' @ bar_chart_sign @ '' Filtered Startup Overview'')),
      (Page, St_write (''Total Startups: '' @ str_nat (length fv)))] @
     (if ''homepage_url'' \<in> set cols
      then [(Page, St_table (head 20 (display_df fv)))]
      else [(Page, St_dataframe (head 20 fv))])"

definition view1 :: "row list \<Rightarrow> event list" where
  "view1 fv =
     [(Col1, St_markdown (''### '' @ light_bulb_sign @ '' Top Markets by Total Funding'')),
      (Col1, St_pyplot (Barplot (top_markets fv)))]"

definition view2 :: "row list \<Rightarrow> event list" where
  "view2 fv =
     [(Col2, St_markdown (''### '' @ chart_up_sign @ '' Total Funding Over Founded Years'')),
      (Col2, St_plotly_chart (Line (yearly_funding fv)))]"

definition view3 :: "row list \<Rightarrow> event list" where
  "view3 fv =
     [(Col1, St_markdown (''### '' @ globe_sign @ '' Startup Count by Country'')),
      (Col1, St_pyplot (Pie (country_counts fv)))]"

definition view4 :: "row list \<Rightarrow> event list" where
  "view4 fv =
     [(Col2, St_markdown (''### '' @ bar_chart_sign @ '' Funding Distribution by Status'')),
      (Col2, St_pyplot (Boxplot (map (\<lambda>r. (status r, funding_total_usd r)) fv)))]"

definition view5 :: "string list \<Rightarrow> row list \<Rightarrow> event list" where
  "view5 cols fv =
     (Col1, St_markdown (''### '' @ arrows_sign @ '' Funding Rounds vs Total Funding'')) #
     (if ''funding_rounds'' \<in> set cols
      then [(Col1, St_plotly_chart (Scatter fv))]
      else [(Col1, St_info ''Funding rounds data not available for scatter plot.'')])"

definition view6 :: "row list \<Rightarrow> event list" where
  "view6 fv =
     [(Col2, St_markdown (''### '' @ chart_down_sign @ '' Average Funding per Market'')),
      (Col2, St_pyplot (Barplot (avg_funding fv)))]"

definition view7 :: "row list \<Rightarrow> event list" where
  "view7 fv =
     (if Some ''acquired'' \<in> set (column status fv)
      then [(Col1, St_markdown (''### '' @ chart_up_sign @ '' Acquisition Rate by Market'')),
            (Col1, St_pyplot (Barplot (top_acq fv)))]
      else [(Col1, St_info ''No acquisitions found in the filtered data.'')])"

text \<open>
  The first six views and the spacing between them, then the whole page. \<open>st.stop()\<close>
  ends the run: nothing after line 41 is executed when the Filtered View is empty.
\<close>

definition views1to6 :: "string list \<Rightarrow> row list \<Rightarrow> event list" where
  "views1to6 cols fv =
     view1 fv @ add_spacing 2 @ view2 fv @ add_spacing 3 @ view3 fv @ add_spacing 3 @
     view4 fv @ add_spacing 3 @ view5 cols fv @ add_spacing 3 @ view6 fv @ add_spacing 3"

definition page :: "string list \<Rightarrow> row list \<Rightarrow> criteria \<Rightarrow> event list" where
  "page cols df c =
     (let fv = filtered_df df c
      in if fv = [] then [(Page, St_warning ''No data available for selected filters.'')]
         else overview cols fv @ views1to6 cols fv @ view7 fv)"

subsection \<open>The specification's words for the aggregates\<close>

text \<open>
  ``Sorted descending by the reduction value and truncated to the top \<open>n\<close>'': the result
  \<open>res\<close> holds \<open>n\<close> entries of the whole aggregate \<open>whole\<close> (all of them when there are
  fewer), no value increases along the result, and no entry left out has a greater value
  than an entry of the result. ``Strictly descending'' also forbids equal neighbours.
\<close>

definition descending_top :: "nat \<Rightarrow> ('k \<times> ('v::linorder)) list \<Rightarrow> ('k \<times> 'v) list \<Rightarrow> bool" where
  "descending_top n whole res \<longleftrightarrow>
     length res = min n (length whole) \<and>
     mset res \<subseteq># mset whole \<and>
     sorted_wrt (\<lambda>a b. snd b \<le> snd a) res \<and>
     (\<forall>a \<in> set res. \<forall>b \<in> set whole. b \<notin> set res \<longrightarrow> snd b \<le> snd a)"

definition strictly_descending :: "('k \<times> ('v::linorder)) list \<Rightarrow> bool" where
  "strictly_descending res \<longleftrightarrow> sorted_wrt (\<lambda>a b. snd b < snd a) res"

text \<open>
  The acquisition rate of a market in a view: the number of its rows with status
  ``acquired'' over the number of its rows.
\<close>

definition spec_acquisition_rate :: "row list \<Rightarrow> string \<Rightarrow> real" where
  "spec_acquisition_rate fv m =
     real (length (filter (\<lambda>r. market r = Some m \<and> status r = Some ''acquired'') fv)) /
     real (length (filter (\<lambda>r. market r = Some m) fv))"

definition spec_acquisition_rates :: "row list \<Rightarrow> (string \<times> real) list" where
  "spec_acquisition_rates fv =
     map (\<lambda>m. (m, spec_acquisition_rate fv m)) (group_keys market fv)"





text \<open>
  A well-formed http(s) address starts with the scheme and its separator; this is the
  least the words ``well-formed http(s) string'' ask for.
\<close>

definition spec_http_prefix :: "string \<Rightarrow> bool" where
  "spec_http_prefix u \<longleftrightarrow> prefix ''http://'' u \<or> prefix ''https://'' u"

subsection \<open>Example data\<close>

definition example_row1 :: row where
  "example_row1 =
     \<lparr>name = None, market = Some ''software'', country_code = Some ''USA'',
      status = Some ''operating'', founded_year = 2010, funding_total_usd = 2000000,
      funding_rounds = None, homepage_url = None\<rparr>"

definition example_row2 :: row where
  "example_row2 =
     \<lparr>name = None, market = Some ''software'', country_code = Some ''GBR'',
      status = Some ''acquired'', founded_year = 2010, funding_total_usd = 500000,
      funding_rounds = None, homepage_url = None\<rparr>"

definition example_dataset :: "row list" where
  "example_dataset = [example_row1, example_row2]"

definition example_criteria :: criteria where
  "example_criteria =
     \<lparr>selected_status = multiselect_options status example_dataset,
      selected_market = multiselect_options market example_dataset,
      selected_country = [''USA''], founded_range = (2005, 2015), min_funding = 1000000\<rparr>"

text \<open>The same selection with the funding threshold above every funding of the Dataset.\<close>

definition high_threshold_criteria :: criteria where
  "high_threshold_criteria = example_criteria\<lparr>min_funding := 2500000\<rparr>"

text \<open>A record whose status is missing, beside one that is complete.\<close>

definition null_status_row :: row where
  "null_status_row =
     \<lparr>name = None, market = Some ''software'', country_code = Some ''USA'',
      status = None, founded_year = 2010, funding_total_usd = 3000000,
      funding_rounds = None, homepage_url = None\<rparr>"

definition null_status_dataset :: "row list" where
  "null_status_dataset = [null_status_row, example_row1]"

text \<open>The same selection with every country of the Dataset and no funding threshold.\<close>

definition all_countries_criteria :: criteria where
  "all_countries_criteria =
     example_criteria\<lparr>selected_country := multiselect_options country_code example_dataset,
       min_funding := 0\<rparr>"

text \<open>Two markets with the same total funding.\<close>

definition tie_dataset :: "row list" where
  "tie_dataset = [example_row1, example_row1\<lparr>market := Some ''hardware''\<rparr>]"

definition tie_criteria :: criteria where
  "tie_criteria = example_criteria\<lparr>selected_market := multiselect_options market tie_dataset\<rparr>"




text \<open>Home pages: text that starts with \<open>http\<close> but has no scheme, and a mix of cells.\<close>

definition bad_url_dataset :: "row list" where
  "bad_url_dataset = [example_row1\<lparr>homepage_url := Some ''httpfoo''\<rparr>]"

definition urls_dataset :: "row list" where
  "urls_dataset =
     [example_row1\<lparr>homepage_url := Some ''https://acme.example''\<rparr>,
      example_row1\<lparr>homepage_url := Some ''www.acme.example''\<rparr>,
      example_row1]"

section \<open>Properties of the filter\<close>

lemma boolean_index_map:
  "boolean_index df (map p df) = filter p df"
  by (induction df) (simp_all add: boolean_index_def)

lemma and_series_map:
  "and_series (map p df) (map q df) = map (\<lambda>r. p r \<and> q r) df"
  by (induction df) (simp_all add: and_series_def)

lemma isin_column:
  "isin (column f df) vals = map (\<lambda>r. f r \<in> Some ` set vals) df"
  by (auto simp: isin_def column_def split: option.splits)

lemma between_column:
  "between_series (column f df) lo hi = map (\<lambda>r. lo \<le> f r \<and> f r \<le> hi) df"
  by (simp add: between_series_def column_def)

lemma ge_column:
  "ge_series (column f df) t = map (\<lambda>r. real_of_int t \<le> f r) df"
  by (simp add: ge_series_def column_def)

lemma filtered_df_filter:
  "filtered_df df c = filter (spec_satisfies c) df"
proof -
  have "filtered_df df c = boolean_index df (map (spec_satisfies c) df)"
    unfolding filtered_df_def isin_column between_column ge_column and_series_map
      spec_satisfies_def [abs_def]
    by simp
  then show ?thesis
    by (simp add: boolean_index_map)
qed

lemma example_filtered:
  "filtered_df example_dataset example_criteria = [example_row1]"
  by code_simp

text \<open>
  Claim C1. The Filtered View is exactly the rows of the Dataset that satisfy the
  conjunction of the five clauses (status, market and country among the selected values,
  founded year within the inclusive range, funding at least the threshold): the mask the
  code builds selects the same rows as the predicate of the specification, in the same
  order and with the same multiplicity, and a row is in the Filtered View if and only if
  it is a row of the Dataset that satisfies all five clauses.
\<close>

theorem filtered_df_exact:
  "filtered_df df c = filter (spec_satisfies c) df \<and>
   (r \<in> set (filtered_df df c) \<longleftrightarrow> r \<in> set df \<and> spec_satisfies c r)"
  by (simp add: filtered_df_filter)

theorem filtered_df_exact_witness:
  "filtered_df example_dataset example_criteria =
     filter (spec_satisfies example_criteria) example_dataset \<and>
   example_row1 \<in> set (filtered_df example_dataset example_criteria) \<and>
   example_row1 \<in> set example_dataset \<and> spec_satisfies example_criteria example_row1"
  using filtered_df_exact [of example_dataset example_criteria example_row1]
  by (simp add: example_filtered)

text \<open>
  Claim C2. The Filtered View is a subset of the Dataset: it has at most as many rows,
  it is a subsequence of the Dataset, and each of its rows satisfies all five clauses.
\<close>

theorem filtered_df_subset:
  "length (filtered_df df c) \<le> length df \<and>
   subseq (filtered_df df c) df \<and>
   set (filtered_df df c) \<subseteq> set df \<and>
   (\<forall>r \<in> set (filtered_df df c). spec_satisfies c r)"
  by (simp add: filtered_df_filter)

theorem filtered_df_subset_witness:
  "filtered_df example_dataset example_criteria = [example_row1] \<and>
   length (filtered_df example_dataset example_criteria) \<le> length example_dataset \<and>
   set (filtered_df example_dataset example_criteria) \<subseteq> set example_dataset \<and>
   spec_satisfies example_criteria example_row1"
  using filtered_df_subset [of example_dataset example_criteria]
  by (simp add: example_filtered)

text \<open>
  Claim C7. The filter is idempotent: filtering a Filtered View again with the same
  criteria leaves it unchanged, so applying the criteria twice gives the view that
  applying them once gives.
\<close>

theorem filtered_df_idempotent:
  "filtered_df (filtered_df df c) c = filtered_df df c"
  by (simp add: filtered_df_filter)

text \<open>
  Claim C10. A selection is a list of strings drawn from the non-null values of a
  column, so a record whose status, market or country code is missing is in no Filtered
  View, whatever is selected: membership of NaN in the selected list is false.
\<close>

theorem null_never_filtered:
  "status r = None \<or> market r = None \<or> country_code r = None \<Longrightarrow>
   r \<notin> set (filtered_df df c)"
  by (auto simp: filtered_df_filter spec_satisfies_def)

lemma null_status_default_status:
  "selected_status (default_criteria null_status_dataset) = [''operating'']"
  by (simp add: default_criteria_def null_status_dataset_def null_status_row_def
      example_row1_def column_def dropna_def unique_def)

theorem null_never_filtered_witness:
  "status null_status_row = None \<and>
   null_status_row \<in> set null_status_dataset \<and>
   selected_status (default_criteria null_status_dataset) = [''operating''] \<and>
   null_status_row \<notin> set (filtered_df null_status_dataset (default_criteria null_status_dataset))"
  using null_never_filtered [of null_status_row null_status_dataset
      "default_criteria null_status_dataset"]
  by (simp add: null_status_default_status) (simp add: null_status_row_def null_status_dataset_def)

section \<open>The page\<close>

lemma high_threshold_filtered:
  "filtered_df example_dataset high_threshold_criteria = []"
  by code_simp

text \<open>
  Claim C3. When the Filtered View is empty, the run after the filter shows the ``no
  data'' warning and nothing else: \<open>st.stop()\<close> ends it before the overview, before any
  aggregate is computed and before any chart is drawn. (The sidebar controls, which
  produce the criteria, come before the filter and are not part of this run.)
\<close>

theorem empty_view_only_warning:
  "filtered_df df c = [] \<Longrightarrow>
   page cols df c = [(Page, St_warning ''No data available for selected filters.'')]"
  by (simp add: page_def)

theorem empty_view_only_warning_witness:
  "filtered_df example_dataset high_threshold_criteria = [] \<and>
   page [] example_dataset high_threshold_criteria =
     [(Page, St_warning ''No data available for selected filters.'')]"
  using empty_view_only_warning [OF high_threshold_filtered, of "[]"]
  by (simp add: high_threshold_filtered)

lemma example_top_markets: "top_markets [example_row1] = [(''software'', 2000000)]"
  by code_simp

lemma example_view7:
  "view7 [example_row1] = [(Col1, St_info ''No acquisitions found in the filtered data.'')]"
  by code_simp

lemma example_no_acquired:
  "Some ''acquired'' \<notin> set (column status [example_row1])"
  by (simp add: column_def example_row1_def)

text \<open>
  Claim C8. For the two-record Dataset of the specification and the criteria with all
  statuses and markets, country USA, years 2005 to 2015 and a minimum funding of
  1,000,000: the Filtered View is the first row alone, the top-markets aggregate is
  software with 2,000,000, no row of the view is ``acquired'', and the acquisition-rate
  view is replaced by its notice at the end of the page.
\<close>

theorem spec_example:
  "filtered_df example_dataset example_criteria = [example_row1] \<and>
   top_markets (filtered_df example_dataset example_criteria) = [(''software'', 2000000)] \<and>
   Some ''acquired'' \<notin> set (column status (filtered_df example_dataset example_criteria)) \<and>
   view7 (filtered_df example_dataset example_criteria) =
     [(Col1, St_info ''No acquisitions found in the filtered data.'')] \<and>
   page cols example_dataset example_criteria =
     overview cols [example_row1] @ views1to6 cols [example_row1] @
     [(Col1, St_info ''No acquisitions found in the filtered data.'')]"
proof -
  have "page cols example_dataset example_criteria =
     overview cols [example_row1] @ views1to6 cols [example_row1] @ view7 [example_row1]"
    by (simp add: page_def Let_def example_filtered)
  then show ?thesis
    by (simp only: example_filtered example_top_markets example_view7 example_no_acquired
        not_False_eq_True simp_thms)
qed

section \<open>The loader\<close>














section \<open>The overview table\<close>

lemma startswith_prefix: "startswith x p \<longleftrightarrow> prefix p x"
  unfolding startswith_def prefix_def
  by (metis append_eq_conv_conj append_take_drop_id)

lemma render_homepage_prefix:
  "render_homepage x =
     (case x of None \<Rightarrow> ''''
      | Some u \<Rightarrow> if prefix ''http'' u then ''[Website]('' @ u @ '')'' else '''')"
  by (simp add: render_homepage_def startswith_prefix split: option.splits)

lemma bad_url_filtered:
  "filtered_df bad_url_dataset example_criteria = bad_url_dataset"
  by code_simp

text \<open>
  Claim C9, as the code has it. The text \<open>httpfoo\<close> has no scheme separator, so it is not
  a well-formed http(s) address, and the table still shows it as a link.
\<close>

theorem link_without_scheme:
  "map d_homepage_url (head 20 (display_df (filtered_df bad_url_dataset example_criteria))) =
     [''[Website](httpfoo)''] \<and>
   \<not> spec_http_prefix ''httpfoo''"
  by code_simp

text \<open>
  Claim C9, amended. The table shows the first 20 rows of the Filtered View, and the
  home page of a row is shown as a link exactly when the cell is text that starts with
  \<open>http\<close>; a missing cell and any other text are shown as the empty string.
\<close>

theorem homepage_link_rule:
  "list_all2
     (\<lambda>r d. d_homepage_url d =
         (case homepage_url r of
            None \<Rightarrow> ''''
          | Some u \<Rightarrow> if prefix ''http'' u then ''[Website]('' @ u @ '')'' else '''') \<and>
       (d_homepage_url d \<noteq> '''' \<longleftrightarrow> (\<exists>u. homepage_url r = Some u \<and> prefix ''http'' u)))
     (take 20 fv) (head 20 (display_df fv))"
proof -
  have eq: "head 20 (display_df fv) =
      map (\<lambda>r. \<lparr>d_name = name r, d_market = market r, d_country_code = country_code r,
               d_status = status r, d_founded_year = founded_year r,
               d_funding_total_usd = funding_total_usd r,
               d_homepage_url = render_homepage (homepage_url r)\<rparr>) (take 20 fv)"
    by (simp add: head_def display_df_def take_map)
  show ?thesis
    unfolding eq list_all2_map2
    by (rule list_all2_refl) (simp add: render_homepage_prefix split: option.splits)
qed

lemma urls_rendered:
  "length (head 20 (display_df urls_dataset)) = 3"
  "map d_homepage_url (head 20 (display_df urls_dataset)) =
     [''[Website](https://acme.example)'', '''', '''']"
  by code_simp+

theorem homepage_link_rule_witness:
  "length (head 20 (display_df urls_dataset)) = 3 \<and>
   map d_homepage_url (head 20 (display_df urls_dataset)) =
     [''[Website](https://acme.example)'', '''', '''']"
  using homepage_link_rule [of urls_dataset]
  by (simp add: urls_rendered)

section \<open>The sorted aggregates\<close>

lemma sort_values_desc_mset: "mset (sort_values_desc s) = mset s"
  by (simp add: sort_values_desc_def)

lemma sort_values_desc_sorted:
  "sorted_wrt (\<lambda>a b. snd b \<le> snd a) (sort_values_desc s)"
proof -
  have "sorted (map snd (sort_key snd (rev s)))"
    by (rule sorted_sort_key)
  then have "sorted_wrt (\<lambda>a b. snd a \<le> snd b) (sort_key snd (rev s))"
    by (simp add: sorted_map)
  then show ?thesis
    by (simp add: sort_values_desc_def sorted_wrt_rev)
qed

lemma head_descending_top:
  "descending_top n s (head n (sort_values_desc s))"
proof -
  let ?ys = "sort_values_desc s"
  have srt: "sorted_wrt (\<lambda>a b. snd b \<le> snd a) (take n ?ys @ drop n ?ys)"
    using sort_values_desc_sorted [of s] by simp
  have len: "length (take n ?ys) = min n (length s)"
    using arg_cong [OF sort_values_desc_mset [of s], of size] by simp
  have "mset (take n ?ys) + mset (drop n ?ys) = mset s"
    by (metis append_take_drop_id mset_append sort_values_desc_mset)
  then have sub: "mset (take n ?ys) \<subseteq># mset s"
    by (metis mset_subset_eq_add_left)
  have top: "snd b \<le> snd a"
    if "a \<in> set (take n ?ys)" "b \<in> set s" "b \<notin> set (take n ?ys)" for a b
  proof -
    have "set s = set (take n ?ys) \<union> set (drop n ?ys)"
      by (metis append_take_drop_id set_append set_mset_mset sort_values_desc_mset)
    with that have "b \<in> set (drop n ?ys)" by simp
    with srt that(1) show ?thesis
      by (simp only: sorted_wrt_append)
  qed
  have "sorted_wrt (\<lambda>a b. snd b \<le> snd a) (take n ?ys)"
    using srt by (simp only: sorted_wrt_append)
  with len sub top show ?thesis
    unfolding descending_top_def head_def by blast
qed

lemma tie_filtered: "filtered_df tie_dataset tie_criteria = tie_dataset"
  by code_simp

lemma tie_top_markets:
  "top_markets tie_dataset = [(''hardware'', 2000000), (''software'', 2000000)]"
  by code_simp

lemma tie_market_sums:
  "market_sums tie_dataset = [(''hardware'', 2000000), (''software'', 2000000)]"
  by code_simp

text \<open>
  Claim C4, as the code has it. Two markets of a Filtered View with the same total
  funding are both in the top-markets result, so its values are not strictly descending.
\<close>

theorem ties_not_strict:
  "\<not> strictly_descending (top_markets (filtered_df tie_dataset tie_criteria))"
  by (simp add: tie_filtered tie_top_markets strictly_descending_def)

text \<open>
  Claim C4, amended. For every view, the top markets by total funding (10), the startup
  counts by country (7), the average funding per market (7) and the acquisition rates
  by market (7) are sorted descending by their value, equal values allowed, and are
  truncated to their top N: the result holds N entries of the whole aggregate (all of
  them when there are fewer) and no entry left out has a greater value than one kept.
\<close>

theorem aggregates_descending_top:
  "descending_top 10 (market_sums fv) (top_markets fv) \<and>
   descending_top 7 (tally (dropna (column country_code fv))) (country_counts fv) \<and>
   descending_top 7 (market_means fv) (avg_funding fv) \<and>
   descending_top 7 (acq_rate fv) (top_acq fv)"
proof -
  have "descending_top 7 (tally (dropna (column country_code fv))) (country_counts fv)"
    unfolding country_counts_def value_counts_def
    using head_descending_top [of 7 "tally (dropna (column country_code fv))"]
    by (simp add: head_def descending_top_def)
  then show ?thesis
    by (simp add: top_markets_def avg_funding_def top_acq_def head_descending_top)
qed

theorem aggregates_descending_top_witness:
  "top_markets tie_dataset = [(''hardware'', 2000000), (''software'', 2000000)] \<and>
   market_sums tie_dataset = [(''hardware'', 2000000), (''software'', 2000000)] \<and>
   descending_top 10 (market_sums tie_dataset) (top_markets tie_dataset)"
  using aggregates_descending_top [of tie_dataset]
  by (simp add: tie_top_markets tie_market_sums)

section \<open>The acquisition rate\<close>

lemma dropna_Nil [simp]: "dropna [] = []"
  by (simp add: dropna_def List.map_filter_simps)

lemma dropna_Cons [simp]:
  "dropna (v # col) = (case v of None \<Rightarrow> dropna col | Some x \<Rightarrow> x # dropna col)"
  by (cases v) (simp_all add: dropna_def List.map_filter_simps)

lemma set_dropna: "set (dropna col) = {x. Some x \<in> set col}"
  by (induction col) (auto split: option.splits)

lemma group_size_count:
  "length (filter (\<lambda>r. key r = Some k) rows) = count_list (dropna (map key rows)) k"
  by (induction rows) (auto split: option.splits)

lemma group_keys_props:
  "set (group_keys key rows) = set (dropna (map key rows))"
  "distinct (group_keys key rows)"
  "sorted (group_keys key rows)"
  by (simp_all add: group_keys_def)

lemma agg_size_groupby:
  "agg_size (groupby key rows) =
     map (\<lambda>k. (k, count_list (dropna (map key rows)) k)) (group_keys key rows)"
  by (simp add: agg_size_def groupby_def group_size_count)

lemma lookup_sizes:
  "(case map_of (map (\<lambda>k. (k, count_list ks k)) K) x of None \<Rightarrow> 0 | Some n \<Rightarrow> n) =
     (if x \<in> set K then count_list ks x else 0)"
  by (simp add: map_of_map_restrict restrict_map_def)

lemma sum_list_indicator:
  "distinct cs \<Longrightarrow>
   sum_list (map (\<lambda>s. if s = a then 1 else 0) cs) = (if a \<in> set cs then (1::nat) else 0)"
  by (induction cs) auto

text \<open>A line of the table sums to the number of keyed rows of its market.\<close>

lemma line_sum:
  assumes "distinct cs" and "snd ` set ks \<subseteq> set cs"
  shows "sum_list (map (\<lambda>s. count_list ks (m, s)) cs) = length (filter (\<lambda>k. fst k = m) ks)"
  using assms(2)
proof (induction ks)
  case Nil
  then show ?case by simp
next
  case (Cons k ks)
  obtain m' s' where k: "k = (m', s')" by (cases k)
  have s': "s' \<in> set cs" using Cons.prems k by simp
  have "sum_list (map (\<lambda>s. count_list (k # ks) (m, s)) cs) =
        sum_list (map (\<lambda>s. count_list ks (m, s) + (if s = s' then (if m' = m then 1 else 0) else 0)) cs)"
    by (rule arg_cong [where f = sum_list]) (auto simp: k)
  also have "\<dots> = sum_list (map (\<lambda>s. count_list ks (m, s)) cs) +
        sum_list (map (\<lambda>s. if s = s' then (if m' = m then 1 else 0) else 0) cs)"
    by (simp add: sum_list_addf)
  also have "sum_list (map (\<lambda>s. if s = s' then (if m' = m then 1 else 0) else 0) cs) =
        (if m' = m then 1 else (0::nat))"
    using sum_list_indicator [OF assms(1), of s'] s' by (cases "m' = m") simp_all
  finally show ?case
    using Cons by (simp add: k)
qed

lemma zip_index_maps:
  "zip idx (map f (zip (map a idx) (map b idx))) = map (\<lambda>m. (m, f (a m, b m))) idx"
  by (induction idx) simp_all

lemma unstack_sizes:
  fixes ks :: "(string \<times> string) list"
  assumes K: "set K = set ks"
  shows "unstack (map (\<lambda>k. (k, count_list ks k)) K) =
     \<lparr>table_index = sort (remdups (map fst K)),
      table_columns = sort (remdups (map snd K)),
      table_values =
        map (\<lambda>m. map (\<lambda>s. count_list ks (m, s)) (sort (remdups (map snd K))))
          (sort (remdups (map fst K)))\<rparr>"
proof -
  have look: "(case map_of (map (\<lambda>k. (k, count_list ks k)) K) x of None \<Rightarrow> 0 | Some n \<Rightarrow> n) =
      count_list ks x" for x
    using K by (simp add: lookup_sizes count_list_0_iff)
  have fsts: "map (\<lambda>((m, s), n). m) (map (\<lambda>k. (k, count_list ks k)) K) = map fst K"
    by (simp add: case_prod_beta)
  have snds: "map (\<lambda>((m, s), n). s) (map (\<lambda>k. (k, count_list ks k)) K) = map snd K"
    by (simp add: case_prod_beta)
  show ?thesis
    unfolding unstack_def fsts snds Let_def look ..
qed

lemma get_column_counts:
  fixes ks :: "(string \<times> string) list"
  assumes cols: "set cols = snd ` set ks"
  shows "get_column
      \<lparr>table_index = idx, table_columns = cols,
       table_values = map (\<lambda>m. map (\<lambda>s. count_list ks (m, s)) cols) idx\<rparr> a =
     map (\<lambda>m. count_list ks (m, a)) idx"
proof -
  have "(case map_of (zip cols (map (\<lambda>s. count_list ks (m, s)) cols)) a of
          None \<Rightarrow> 0 | Some n \<Rightarrow> n) = count_list ks (m, a)" for m
  proof (cases "a \<in> set cols")
    case True
    then show ?thesis by (simp add: map_of_zip_map)
  next
    case False
    then have "(m, a) \<notin> set ks"
      using cols by force
    with False show ?thesis
      by (simp add: map_of_zip_map count_list_0_iff)
  qed
  then show ?thesis
    by (simp add: get_column_def o_def)
qed

text \<open>What the table computation of lines 151 and 152 yields, for any view.\<close>

lemma acq_rate_counts:
  "acq_rate fv =
     map (\<lambda>m. (m, real (count_list (dropna (map market_status_key fv)) (m, ''acquired'')) /
                   real (length (filter (\<lambda>k. fst k = m) (dropna (map market_status_key fv))))))
       (sort (remdups (map fst (group_keys market_status_key fv))))"
proof -
  let ?ks = "dropna (map market_status_key fv)"
  let ?K = "group_keys market_status_key fv"
  let ?idx = "sort (remdups (map fst ?K))"
  let ?cols = "sort (remdups (map snd ?K))"
  let ?t = "\<lparr>table_index = ?idx, table_columns = ?cols,
      table_values = map (\<lambda>m. map (\<lambda>s. count_list ?ks (m, s)) ?cols) ?idx\<rparr>"
  have K: "set ?K = set ?ks"
    by (rule group_keys_props)
  have t: "status_data fv = ?t"
    unfolding status_data_def agg_size_groupby by (rule unstack_sizes [OF K])
  have cols: "set ?cols = snd ` set ?ks" "distinct ?cols"
    using K by simp_all
  have acq: "get_column ?t ''acquired'' = map (\<lambda>m. count_list ?ks (m, ''acquired'')) ?idx"
    by (rule get_column_counts [OF cols(1)])
  have sums: "sum_axis1 ?t = map (\<lambda>m. length (filter (\<lambda>k. fst k = m) ?ks)) ?idx"
    using line_sum [OF cols(2), of ?ks] cols(1) by (simp add: sum_axis1_def o_def)
  show ?thesis
    unfolding acq_rate_def t Let_def acq sums
    by (simp add: zip_index_maps)
qed

lemma market_status_key_eq:
  "market_status_key r = Some (m, s) \<longleftrightarrow> market r = Some m \<and> status r = Some s"
  by (auto simp: market_status_key_def split: option.splits)

lemma acquired_count:
  "count_list (dropna (map market_status_key fv)) (m, s) =
     length (filter (\<lambda>r. market r = Some m \<and> status r = Some s) fv)"
  using group_size_count [of market_status_key "(m, s)" fv]
  by (simp add: market_status_key_eq)

lemma market_count:
  assumes "\<forall>r \<in> set fv. status r \<noteq> None"
  shows "length (filter (\<lambda>k. fst k = m) (dropna (map market_status_key fv))) =
     length (filter (\<lambda>r. market r = Some m) fv)"
  using assms
  by (induction fv) (auto simp: market_status_key_def split: option.splits)

lemma market_index:
  assumes "\<forall>r \<in> set fv. status r \<noteq> None"
  shows "sort (remdups (map fst (group_keys market_status_key fv))) = group_keys market fv"
proof (rule sorted_distinct_set_unique)
  have "fst ` set (dropna (map market_status_key fv)) = set (dropna (map market fv))"
  proof (intro set_eqI iffI)
    fix m assume "m \<in> fst ` set (dropna (map market_status_key fv))"
    then obtain s where "(m, s) \<in> set (dropna (map market_status_key fv))"
      by force
    then obtain r where "r \<in> set fv" "market_status_key r = Some (m, s)"
      by (auto simp: set_dropna)
    then have "r \<in> set fv" "market r = Some m"
      by (simp_all add: market_status_key_eq)
    then have "Some m \<in> set (map market fv)"
      by (metis image_eqI set_map)
    then show "m \<in> set (dropna (map market fv))"
      by (simp add: set_dropna)
  next
    fix m assume "m \<in> set (dropna (map market fv))"
    then obtain r where r: "r \<in> set fv" "market r = Some m"
      by (auto simp: set_dropna)
    with assms obtain s where "status r = Some s" by auto
    with r have "Some (m, s) \<in> set (map market_status_key fv)"
      by (metis image_eqI market_status_key_eq set_map)
    then have "(m, s) \<in> set (dropna (map market_status_key fv))"
      by (simp add: set_dropna)
    then show "m \<in> fst ` set (dropna (map market_status_key fv))"
      by force
  qed
  then show "set (sort (remdups (map fst (group_keys market_status_key fv)))) =
      set (group_keys market fv)"
    by (simp add: group_keys_props)
qed (simp_all add: group_keys_props)

lemma acq_rate_spec:
  assumes "\<forall>r \<in> set fv. status r \<noteq> None"
  shows "acq_rate fv = spec_acquisition_rates fv"
  unfolding acq_rate_counts spec_acquisition_rates_def spec_acquisition_rate_def
    market_index [OF assms] market_count [OF assms] acquired_count ..

lemma filtered_df_status:
  "\<forall>r \<in> set (filtered_df df c). status r \<noteq> None"
  by (auto simp: filtered_df_filter spec_satisfies_def)

lemma group_nonempty:
  "m \<in> set (group_keys market fv) \<Longrightarrow> 0 < length (filter (\<lambda>r. market r = Some m) fv)"
  by (auto simp: group_keys_props set_dropna length_greater_0_conv filter_empty_conv)

lemma all_countries_filtered:
  "filtered_df example_dataset all_countries_criteria = example_dataset"
  by code_simp

lemma example_rates:
  "sort_values_desc (spec_acquisition_rates example_dataset) = [(''software'', 1 / 2)]"
  by code_simp

lemma example_has_acquired:
  "example_row2 \<in> set example_dataset \<and> status example_row2 = Some ''acquired''"
  by (simp add: example_dataset_def example_row2_def)

lemma example_row1_not_acquired: "status example_row1 \<noteq> Some ''acquired''"
  by (simp add: example_row1_def)

text \<open>
  Claim C5. On a Filtered View \<open>fv\<close>, the acquisition-rate view is computed exactly when
  some row of \<open>fv\<close> has status ``acquired''; otherwise it is replaced by a notice, and on
  a non-empty view the overview and the six other views are shown before it in both
  cases. When computed, the chart is given, for each market of \<open>fv\<close>, the number of its
  rows with status ``acquired'' over the number of its rows (a market listed has at
  least one row), sorted descending and truncated to the top 7.
\<close>

theorem acquisition_rate_view:
  assumes "fv = filtered_df df c"
  shows "view7 fv =
     (if \<exists>r \<in> set fv. status r = Some ''acquired''
      then [(Col1, St_markdown (''### '' @ chart_up_sign @ '' Acquisition Rate by Market'')),
            (Col1, St_pyplot (Barplot (take 7 (sort_values_desc (spec_acquisition_rates fv)))))]
      else [(Col1, St_info ''No acquisitions found in the filtered data.'')]) \<and>
   descending_top 7 (spec_acquisition_rates fv)
     (take 7 (sort_values_desc (spec_acquisition_rates fv))) \<and>
   (\<forall>m \<in> set (group_keys market fv). 0 < length (filter (\<lambda>r. market r = Some m) fv)) \<and>
   (fv \<noteq> [] \<longrightarrow> page cols df c = overview cols fv @ views1to6 cols fv @ view7 fv)"
proof -
  have rate: "acq_rate fv = spec_acquisition_rates fv"
    unfolding assms by (rule acq_rate_spec [OF filtered_df_status])
  have cond: "Some ''acquired'' \<in> set (column status fv) \<longleftrightarrow>
      (\<exists>r \<in> set fv. status r = Some ''acquired'')"
    by (force simp: column_def)
  have v7: "view7 fv =
     (if \<exists>r \<in> set fv. status r = Some ''acquired''
      then [(Col1, St_markdown (''### '' @ chart_up_sign @ '' Acquisition Rate by Market'')),
            (Col1, St_pyplot (Barplot (take 7 (sort_values_desc (spec_acquisition_rates fv)))))]
      else [(Col1, St_info ''No acquisitions found in the filtered data.'')])"
    unfolding view7_def cond top_acq_def head_def rate ..
  have top: "descending_top 7 (spec_acquisition_rates fv)
     (take 7 (sort_values_desc (spec_acquisition_rates fv)))"
    using head_descending_top [of 7 "spec_acquisition_rates fv"] by (simp add: head_def)
  have pos: "\<forall>m \<in> set (group_keys market fv). 0 < length (filter (\<lambda>r. market r = Some m) fv)"
    using group_nonempty by blast
  have pg: "fv \<noteq> [] \<longrightarrow> page cols df c = overview cols fv @ views1to6 cols fv @ view7 fv"
    by (simp add: page_def Let_def assms)
  from v7 top pos pg show ?thesis by (intro conjI)
qed

theorem acquisition_rate_view_witness:
  "view7 (filtered_df example_dataset all_countries_criteria) =
     [(Col1, St_markdown (''### '' @ chart_up_sign @ '' Acquisition Rate by Market'')),
      (Col1, St_pyplot (Barplot [(''software'', 1 / 2)]))] \<and>
   view7 (filtered_df example_dataset example_criteria) =
     [(Col1, St_info ''No acquisitions found in the filtered data.'')]"
  using acquisition_rate_view [OF refl, of example_dataset all_countries_criteria]
    acquisition_rate_view [OF refl, of example_dataset example_criteria]
    example_has_acquired example_row1_not_acquired
  by (simp add: all_countries_filtered example_filtered example_rates) blast

end
